theory Spec2Isabelle
  imports Main "HOL-Library.AList"
begin

section \<open>Data model (types.ts)\<close>

text \<open>
  Strings are \<open>char list\<close>; the characters stand for ASCII code units. Case mapping and
  white space are modelled on ASCII only: a character outside ASCII is never white space
  and is its own upper and lower case.
\<close>

datatype Priority = LOW | MEDIUM | HIGH

record User =
  username :: string
  user_id :: string

text \<open>
  \<open>interface Task\<close>. The fields \<open>id\<close> and \<open>text\<close> are named \<open>task_id\<close> and
  \<open>task_text\<close> here. \<open>createdAt\<close> is the ISO-8601 string the code stores.
  \<open>timeSpent\<close> is a JavaScript number holding whole seconds; it is an \<open>int\<close> here
  (the loss of precision of doubles above \<open>2 ^ 53\<close> is not modelled).
\<close>

record Task =
  task_id :: string
  task_text :: string
  completed :: bool
  createdAt :: string
  priority :: Priority
  tags :: "string list"
  timeSpent :: int
  isTimerRunning :: bool

text \<open>\<open>interface TaskStats\<close>; its field \<open>completed\<close> is named \<open>completedCount\<close>.\<close>

record TaskStats =
  total :: nat
  pending :: nat
  completedCount :: nat

section \<open>Constants (constants.ts)\<close>

fun PRIORITY_KEYWORDS :: "Priority \<Rightarrow> string list" where
  "PRIORITY_KEYWORDS HIGH =
     [''urgent'', ''asap'', ''important'', ''deadline'', ''exam'', ''final'', ''must'',
      ''alert'', ''crisis'']"
| "PRIORITY_KEYWORDS MEDIUM =
     [''call'', ''email'', ''meeting'', ''review'', ''buy'', ''shop'', ''prepare'',
      ''discuss'']"
| "PRIORITY_KEYWORDS LOW = []"

definition TAG_MAPPING :: "(string \<times> string) list" where
  "TAG_MAPPING =
     [(''study'', ''Education''),
      (''exam'', ''Academic''),
      (''meeting'', ''Work''),
      (''project'', ''Work''),
      (''office'', ''Work''),
      (''gym'', ''Health''),
      (''workout'', ''Health''),
      (''run'', ''Health''),
      (''buy'', ''Shopping''),
      (''grocery'', ''Errands''),
      (''shop'', ''Shopping''),
      (''dinner'', ''Personal''),
      (''family'', ''Personal'')]"

definition STORAGE_KEY :: string where
  "STORAGE_KEY = ''smart_task_pro_data''"

section \<open>String primitives of the platform\<close>

definition lowerChars :: string where
  "lowerChars = ''abcdefghijklmnopqrstuvwxyz''"

definition upperChars :: string where
  "upperChars = ''ABCDEFGHIJKLMNOPQRSTUVWXYZ''"

definition digitChars :: string where
  "digitChars = ''0123456789''"

definition toLowerChar :: "char \<Rightarrow> char" where
  "toLowerChar c = (case map_of (zip upperChars lowerChars) c of Some l \<Rightarrow> l | None \<Rightarrow> c)"

definition toUpperChar :: "char \<Rightarrow> char" where
  "toUpperChar c = (case map_of (zip lowerChars upperChars) c of Some u \<Rightarrow> u | None \<Rightarrow> c)"

text \<open>\<open>String.prototype.toLowerCase\<close>.\<close>

definition toLowerCase :: "string \<Rightarrow> string" where
  "toLowerCase s = map toLowerChar s"

text \<open>White space as \<open>String.prototype.trim\<close> sees it, within ASCII: TAB, LF, VT, FF, CR, SP.\<close>

definition isSpace :: "char \<Rightarrow> bool" where
  "isSpace c = (c \<in> set [CHR 0x09, CHR 0x0A, CHR 0x0B, CHR 0x0C, CHR 0x0D, CHR 0x20])"

definition isAlnum :: "char \<Rightarrow> bool" where
  "isAlnum c = (c \<in> set lowerChars \<or> c \<in> set upperChars \<or> c \<in> set digitChars)"

text \<open>\<open>String.prototype.trim\<close>: white space removed at both ends.\<close>

definition trim :: "string \<Rightarrow> string" where
  "trim s = rev (dropWhile isSpace (rev (dropWhile isSpace s)))"

section \<open>Helpers (utils/helpers)\<close>

text \<open>
  Modelled from the spec: \<open>capitalize\<close> of \<open>utils/helpers\<close>, which is not among the
  sources. "Normalizes capitalization (first letter upper-cased, rest unchanged)."
\<close>

fun capitalize :: "string \<Rightarrow> string" where
  "capitalize [] = []"
| "capitalize (c # cs) = toUpperChar c # cs"

text \<open>
  Modelled from the spec: the tokenizer of the classifier in \<open>utils/helpers\<close>, which is
  not among the sources. "Tokenizes text case-insensitively into words"; "tokenization
  must strip non-alphanumeric boundary characters". The text is lower-cased, cut at white
  space, and every word loses its leading and trailing non-alphanumeric characters; words
  that become empty are no tokens.
\<close>

fun splitWords :: "string \<Rightarrow> string \<Rightarrow> string list" where
  "splitWords acc [] = [rev acc]"
| "splitWords acc (c # cs) =
     (if isSpace c then rev acc # splitWords [] cs else splitWords (c # acc) cs)"

definition stripBoundary :: "string \<Rightarrow> string" where
  "stripBoundary w =
     rev (dropWhile (\<lambda>c. \<not> isAlnum c) (rev (dropWhile (\<lambda>c. \<not> isAlnum c) w)))"

definition tokens :: "string \<Rightarrow> string list" where
  "tokens txt = filter (\<lambda>w. w \<noteq> []) (map stripBoundary (splitWords [] (toLowerCase txt)))"

text \<open>
  Modelled from the spec: \<open>determinePriority\<close> of \<open>utils/helpers\<close>, which is not among
  the sources. "Scan a fixed ordered table of keyword sets, one per priority level from
  highest to lowest severity (High, then Medium; Low is the default with no keywords). The
  first level whose keyword set intersects the token set wins; if none match, priority is
  Low." The keyword sets are those of \<open>PRIORITY_KEYWORDS\<close> in constants.ts.
\<close>

definition determinePriority :: "string \<Rightarrow> Priority" where
  "determinePriority txt =
     (case find (\<lambda>p. list_ex (\<lambda>k. k \<in> set (tokens txt)) (PRIORITY_KEYWORDS p)) [HIGH, MEDIUM] of
        Some p \<Rightarrow> p
      | None \<Rightarrow> LOW)"

text \<open>
  Modelled from the spec: \<open>determineTags\<close> of \<open>utils/helpers\<close>, which is not among the
  sources. "For each token, look up a fixed keyword to category mapping; the resulting tag
  set is the set of unique categories across all matching tokens, duplicates collapsed.
  Tokens with no mapping contribute nothing." The mapping is \<open>TAG_MAPPING\<close> of
  constants.ts.
\<close>

definition determineTags :: "string \<Rightarrow> string list" where
  "determineTags txt = remdups (List.map_filter (map_of TAG_MAPPING) (tokens txt))"

section \<open>Application state and the lifecycle operations (App.tsx)\<close>

text \<open>
  The React state of \<open>App\<close> that the operations read and write. \<open>error\<close> is the
  validation message shown to the user (\<open>null\<close> is \<open>None\<close>).
\<close>

record AppState =
  currentUser :: "User option"
  tasks :: "Task list"
  inputValue :: string
  error :: "string option"

text \<open>
  \<open>addTask\<close>. \<open>uuid\<close> is the value of \<open>crypto.randomUUID()\<close> and \<open>nowIso\<close> that of
  \<open>new Date().toISOString()\<close> at the call. On an input that is empty after trimming the
  message is set and nothing else happens (the timeout that clears the message three
  seconds later is not modelled).
\<close>

definition addTask :: "string \<Rightarrow> string \<Rightarrow> AppState \<Rightarrow> AppState" where
  "addTask uuid nowIso s =
     (let trimmedText = trim (inputValue s) in
      if trimmedText = [] then s\<lparr>error := Some ''Please enter a valid task description.''\<rparr>
      else
        let newTask = \<lparr>task_id = uuid,
                       task_text = capitalize trimmedText,
                       completed = False,
                       createdAt = nowIso,
                       priority = determinePriority trimmedText,
                       tags = determineTags trimmedText,
                       timeSpent = 0,
                       isTimerRunning = False\<rparr>
        in s\<lparr>tasks := newTask # tasks s, inputValue := [], error := None\<rparr>)"

text \<open>The updaters passed to \<open>setTasks\<close> by the other operations.\<close>

definition toggleTask :: "string \<Rightarrow> Task list \<Rightarrow> Task list" where
  "toggleTask i prev =
     map (\<lambda>t. if task_id t = i
              then t\<lparr>completed := \<not> completed t,
                     isTimerRunning := (if \<not> completed t then False else isTimerRunning t)\<rparr>
              else t) prev"

definition toggleTimer :: "string \<Rightarrow> Task list \<Rightarrow> Task list" where
  "toggleTimer i prev =
     map (\<lambda>t. if task_id t = i then t\<lparr>isTimerRunning := \<not> isTimerRunning t\<rparr> else t) prev"

definition deleteTask :: "string \<Rightarrow> Task list \<Rightarrow> Task list" where
  "deleteTask i prev = filter (\<lambda>t. task_id t \<noteq> i) prev"

text \<open>\<open>editTask\<close> returns before \<open>setTasks\<close> when the new text is empty after trimming.\<close>

definition editTask :: "string \<Rightarrow> string \<Rightarrow> Task list \<Rightarrow> Task list" where
  "editTask i newText prev =
     (if trim newText = [] then prev
      else map (\<lambda>t. if task_id t = i then t\<lparr>task_text := capitalize (trim newText)\<rparr> else t) prev)"

definition clearCompleted :: "Task list \<Rightarrow> Task list" where
  "clearCompleted prev = filter (\<lambda>t. \<not> completed t) prev"

text \<open>The body of the one-second interval of the global timer.\<close>

definition tick :: "Task list \<Rightarrow> Task list" where
  "tick prev = map (\<lambda>t. if isTimerRunning t then t\<lparr>timeSpent := timeSpent t + 1\<rparr> else t) prev"

text \<open>
  What the user and the timer can do to the state. \<open>SetInput\<close> is the \<open>onChange\<close>
  handler of the input field; \<open>AddTask\<close> carries the UUID and the time stamp the platform
  hands out at the call.
\<close>

datatype Op =
    SetInput string
  | AddTask string string
  | ToggleTask string
  | ToggleTimer string
  | DeleteTask string
  | EditTask string string
  | ClearCompleted
  | Tick

text \<open>
  The interval of the global timer exists only while a user is logged in and at least one
  task is running (the two early returns of the effect).
\<close>

fun step :: "Op \<Rightarrow> AppState \<Rightarrow> AppState" where
  "step (SetInput v) s = s\<lparr>inputValue := v\<rparr>"
| "step (AddTask uuid nowIso) s = addTask uuid nowIso s"
| "step (ToggleTask i) s = s\<lparr>tasks := toggleTask i (tasks s)\<rparr>"
| "step (ToggleTimer i) s = s\<lparr>tasks := toggleTimer i (tasks s)\<rparr>"
| "step (DeleteTask i) s = s\<lparr>tasks := deleteTask i (tasks s)\<rparr>"
| "step (EditTask i newText) s = s\<lparr>tasks := editTask i newText (tasks s)\<rparr>"
| "step ClearCompleted s = s\<lparr>tasks := clearCompleted (tasks s)\<rparr>"
| "step Tick s =
     (if currentUser s \<noteq> None \<and> list_ex isTimerRunning (tasks s)
      then s\<lparr>tasks := tick (tasks s)\<rparr> else s)"

fun run :: "Op list \<Rightarrow> AppState \<Rightarrow> AppState" where
  "run [] s = s"
| "run (op # ops) s = run ops (step op s)"

text \<open>No task of the collection is completed and running at once.\<close>

definition timerInv :: "Task list \<Rightarrow> bool" where
  "timerInv ts = list_all (\<lambda>t. \<not> (isTimerRunning t \<and> completed t)) ts"

text \<open>
  Following one task through the operations. \<open>descendant op s t\<close> is what \<open>op\<close>, run in
  state \<open>s\<close>, makes of the task \<open>t\<close>: the operation is run on the collection that holds
  \<open>t\<close> alone, and the last task of the result is \<open>t\<close> afterwards (a created task is put
  in front); an empty result means \<open>t\<close> was removed. \<open>created op s\<close> are the tasks that
  \<open>op\<close> adds.
\<close>

definition descendant :: "Op \<Rightarrow> AppState \<Rightarrow> Task \<Rightarrow> Task option" where
  "descendant op s t =
     (case tasks (step op (s\<lparr>tasks := [t]\<rparr>)) of [] \<Rightarrow> None | r # rs \<Rightarrow> Some (last (r # rs)))"

definition created :: "Op \<Rightarrow> AppState \<Rightarrow> Task list" where
  "created op s = tasks (step op (s\<lparr>tasks := []\<rparr>))"

fun descendants :: "Op list \<Rightarrow> AppState \<Rightarrow> Task \<Rightarrow> Task option" where
  "descendants [] s t = Some t"
| "descendants (op # ops) s t =
     (case descendant op s t of None \<Rightarrow> None | Some t' \<Rightarrow> descendants ops (step op s) t')"

section \<open>Statistics (App.tsx)\<close>

definition monthlyStats :: "Task list \<Rightarrow> TaskStats" where
  "monthlyStats ts =
     \<lparr>total = length ts,
      pending = length (filter (\<lambda>t. \<not> completed t) ts),
      completedCount = length (filter (\<lambda>t. completed t) ts)\<rparr>"

text \<open>
  \<open>isToday\<close> of \<open>utils/helpers\<close> is not among the sources; \<open>dailyStats\<close> takes it as a
  parameter, the test on a \<open>createdAt\<close> string at the time of the call.
\<close>

definition dailyStats :: "(string \<Rightarrow> bool) \<Rightarrow> Task list \<Rightarrow> TaskStats" where
  "dailyStats isToday ts =
     (let pendingCount = length (filter (\<lambda>t. \<not> completed t) ts);
          completedTodayCount = length (filter (\<lambda>t. completed t \<and> isToday (createdAt t)) ts)
      in \<lparr>total = pendingCount + completedTodayCount,
          pending = pendingCount,
          completedCount = completedTodayCount\<rparr>)"

section \<open>Loading the persisted records (App.tsx)\<close>

text \<open>
  The records that \<open>JSON.parse\<close> returns are untyped (\<open>any\<close>): an object is a list of
  properties, a value is a JSON value or \<open>undefined\<close>. Numbers are integers here.
\<close>

datatype jsval =
    JUndefined
  | JNull
  | JBool bool
  | JNum int
  | JStr string
  | JArr "jsval list"
  | JObj "(string \<times> jsval) list"

type_synonym jsobj = "(string \<times> jsval) list"

text \<open>Property read \<open>t.key\<close>: a missing property is \<open>undefined\<close>.\<close>

definition getProp :: "jsobj \<Rightarrow> string \<Rightarrow> jsval" where
  "getProp t key = (case map_of t key of Some v \<Rightarrow> v | None \<Rightarrow> JUndefined)"

text \<open>\<open>ToBoolean\<close>, and the operator \<open>||\<close>.\<close>

fun truthy :: "jsval \<Rightarrow> bool" where
  "truthy JUndefined = False"
| "truthy JNull = False"
| "truthy (JBool b) = b"
| "truthy (JNum n) = (n \<noteq> 0)"
| "truthy (JStr s) = (s \<noteq> [])"
| "truthy (JArr _) = True"
| "truthy (JObj _) = True"

definition jsOr :: "jsval \<Rightarrow> jsval \<Rightarrow> jsval" where
  "jsOr a b = (if truthy a then a else b)"

fun isNumber :: "jsval \<Rightarrow> bool" where
  "isNumber (JNum _) = True"
| "isNumber _ = False"

fun isBoolean :: "jsval \<Rightarrow> bool" where
  "isBoolean (JBool _) = True"
| "isBoolean _ = False"

definition msPerDay :: int where
  "msPerDay = 86400000"

text \<open>
  Modelled from the spec: \<open>isWithinLast30Days\<close> of \<open>utils/helpers\<close>, which is not among
  the sources. "Keep only records whose creation timestamp is within the last 30 days
  (inclusive boundary semantics: a record created exactly 30 days ago at the same
  time-of-day is retained; strictly older is dropped)." \<open>dateTime\<close> is the platform's
  \<open>new Date(str).getTime()\<close>, the instant in milliseconds that an ISO-8601 string denotes
  (\<open>None\<close> for an invalid date); \<open>now\<close> is the current instant; a day is 86400000 ms. A
  value that is no string, or no valid date, has no creation timestamp and is not within
  the window.
\<close>

definition isWithinLast30Days :: "(string \<Rightarrow> int option) \<Rightarrow> int \<Rightarrow> jsval \<Rightarrow> bool" where
  "isWithinLast30Days dateTime now v =
     (case v of
        JStr str \<Rightarrow> (case dateTime str of Some ts \<Rightarrow> now - 30 * msPerDay \<le> ts | None \<Rightarrow> False)
      | _ \<Rightarrow> False)"

definition userStorageKey :: "User option \<Rightarrow> string" where
  "userStorageKey cu = (case cu of Some u \<Rightarrow> STORAGE_KEY @ ''_'' @ username u | None \<Rightarrow> [])"

text \<open>
  The arrow function mapped over the retained records:
  \<open>{...t, timeSpent: t.timeSpent || 0, isTimerRunning: !!t.isTimerRunning}\<close>.
\<close>

definition cleanedTask :: "jsobj \<Rightarrow> jsobj" where
  "cleanedTask t =
     AList.update ''isTimerRunning'' (JBool (truthy (getProp t ''isTimerRunning'')))
       (AList.update ''timeSpent'' (jsOr (getProp t ''timeSpent'') (JNum 0)) t)"

text \<open>
  The load effect. \<open>localStorage\<close> maps a key to the array of records parsed from the
  stored blob (\<open>None\<close> when nothing is stored under the key). The result is the value
  given to \<open>setTasks\<close>.
\<close>

definition loadTasks ::
  "(string \<Rightarrow> int option) \<Rightarrow> int \<Rightarrow> User option \<Rightarrow> (string \<Rightarrow> jsobj list option) \<Rightarrow> jsobj list"
where
  "loadTasks dateTime now cu localStorage =
     (if cu \<noteq> None \<and> userStorageKey cu \<noteq> [] then
        let parsed = (case localStorage (userStorageKey cu) of Some p \<Rightarrow> p | None \<Rightarrow> [])
        in map cleanedTask
             (filter (\<lambda>t. isWithinLast30Days dateTime now (getProp t ''createdAt'')) parsed)
      else [])"

section \<open>Sample data for the examples\<close>

text \<open>
  The current instant is 2026-11-02T10:00:00.000Z; the three dates are 31, 30 and 29 days
  before it, at the same time of day.
\<close>

definition sampleNow :: int where
  "sampleNow = 1793613600000"

definition sampleDateTime :: "string \<Rightarrow> int option" where
  "sampleDateTime =
     map_of [(''2026-10-02T10:00:00.000Z'', 1790935200000),
             (''2026-10-03T10:00:00.000Z'', 1791021600000),
             (''2026-10-04T10:00:00.000Z'', 1791108000000)]"

definition sampleUser :: User where
  "sampleUser = \<lparr>username = ''ann'', user_id = ''1''\<rparr>"

definition sampleStorage :: "jsobj list \<Rightarrow> string \<Rightarrow> jsobj list option" where
  "sampleStorage records key = (if key = ''smart_task_pro_data_ann'' then Some records else None)"

section \<open>Evaluation lemmas\<close>

lemmas char_defs = toLowerCase_def toLowerChar_def toUpperChar_def lowerChars_def upperChars_def
  digitChars_def isSpace_def isAlnum_def trim_def stripBoundary_def tokens_def

lemma tokens_buy_groceries: "tokens ''Buy groceries'' = [''buy'', ''groceries'']"
  by (simp add: char_defs)

lemma trim_buy_groceries: "trim ''Buy groceries'' = ''Buy groceries''"
  by (simp add: trim_def isSpace_def)

lemma addTask_buy_groceries:
  "tasks (addTask ''u1'' ''2026-11-02T10:00:00.000Z''
      \<lparr>currentUser = None, tasks = [], inputValue = ''Buy groceries'', error = None\<rparr>) =
   [\<lparr>task_id = ''u1'', task_text = ''Buy groceries'', completed = False,
     createdAt = ''2026-11-02T10:00:00.000Z'', priority = MEDIUM, tags = [''Shopping''],
     timeSpent = 0, isTimerRunning = False\<rparr>]"
  by (simp add: addTask_def Let_def trim_buy_groceries determinePriority_def determineTags_def
      tokens_buy_groceries TAG_MAPPING_def toUpperChar_def lowerChars_def upperChars_def)

lemma tokens_urgent_exam: "tokens ''URGENT exam tomorrow'' = [''urgent'', ''exam'', ''tomorrow'']"
  by (simp add: char_defs)

lemma trim_urgent_exam: "trim ''  URGENT exam tomorrow '' = ''URGENT exam tomorrow''"
  by (simp add: trim_def isSpace_def)

lemma trim_blanks: "trim ''   '' = []"
  by (simp add: trim_def isSpace_def)

lemma trim_empty: "trim [] = []"
  by (simp add: trim_def)

section \<open>The classifier at creation\<close>

text \<open>
  C2, as the claim states it, fails: ``Creating a task from the input text "Buy groceries"
  yields a record with priority Low and tag set exactly {"Shopping", "Errands"}.'' The
  Medium keyword list of constants.ts holds \<open>buy\<close>, so the priority is not Low; and the
  token \<open>groceries\<close> is not the key \<open>grocery\<close> of the tag mapping, so \<open>Errands\<close> is no
  tag of the record.
\<close>

theorem buy_groceries_not_low_errands:
  "priority (hd (tasks (addTask ''u1'' ''2026-11-02T10:00:00.000Z''
      \<lparr>currentUser = None, tasks = [], inputValue = ''Buy groceries'', error = None\<rparr>))) \<noteq> LOW
   \<and> set (tags (hd (tasks (addTask ''u1'' ''2026-11-02T10:00:00.000Z''
      \<lparr>currentUser = None, tasks = [], inputValue = ''Buy groceries'', error = None\<rparr>))))
       \<noteq> {''Shopping'', ''Errands''}"
  by (simp add: addTask_buy_groceries)

text \<open>
  C2, amended: creating a task from the input text "Buy groceries" yields a record with
  priority Medium and tag set exactly {"Shopping"}.
\<close>

theorem buy_groceries_medium_shopping:
  "priority (hd (tasks (addTask ''u1'' ''2026-11-02T10:00:00.000Z''
      \<lparr>currentUser = None, tasks = [], inputValue = ''Buy groceries'', error = None\<rparr>))) = MEDIUM
   \<and> set (tags (hd (tasks (addTask ''u1'' ''2026-11-02T10:00:00.000Z''
      \<lparr>currentUser = None, tasks = [], inputValue = ''Buy groceries'', error = None\<rparr>))))
       = {''Shopping''}"
  by (simp add: addTask_buy_groceries)

lemma determinePriority_levels:
  "determinePriority txt =
     (if set (tokens txt) \<inter> set (PRIORITY_KEYWORDS HIGH) \<noteq> {} then HIGH
      else if set (tokens txt) \<inter> set (PRIORITY_KEYWORDS MEDIUM) \<noteq> {} then MEDIUM
      else LOW)"
proof -
  have ex: "list_ex (\<lambda>k. k \<in> set (tokens txt)) ks \<longleftrightarrow> set (tokens txt) \<inter> set ks \<noteq> {}" for ks
    by (auto simp: list_ex_iff)
  show ?thesis
    unfolding determinePriority_def ex by (simp del: PRIORITY_KEYWORDS.simps)
qed

lemma determinePriority_case_insensitive:
  "toLowerCase a = toLowerCase b \<Longrightarrow> determinePriority a = determinePriority b"
  unfolding determinePriority_def tokens_def by (simp only:)

lemma addTask_tasks:
  assumes "trim (inputValue s) \<noteq> []"
  shows "tasks (addTask uuid nowIso s) =
      \<lparr>task_id = uuid, task_text = capitalize (trim (inputValue s)), completed = False,
       createdAt = nowIso, priority = determinePriority (trim (inputValue s)),
       tags = determineTags (trim (inputValue s)), timeSpent = 0, isTimerRunning = False\<rparr>
      # tasks s"
  using assms by (simp add: addTask_def Let_def)

text \<open>
  C3: for every input whose trimmed text \<open>T\<close> is not empty, \<open>addTask\<close> puts one new
  record in front of the collection, and its priority is High if a token of \<open>T\<close> is a High
  keyword, else Medium if a token is a Medium keyword, else Low. Only the presence of a
  keyword among the tokens counts, and any text that agrees with \<open>T\<close> up to letter case
  has the same priority.
\<close>

theorem addTask_priority:
  assumes "trim (inputValue s) \<noteq> []"
  shows "tasks (addTask uuid nowIso s) = hd (tasks (addTask uuid nowIso s)) # tasks s
    \<and> priority (hd (tasks (addTask uuid nowIso s))) =
        (if set (tokens (trim (inputValue s))) \<inter> set (PRIORITY_KEYWORDS HIGH) \<noteq> {} then HIGH
         else if set (tokens (trim (inputValue s))) \<inter> set (PRIORITY_KEYWORDS MEDIUM) \<noteq> {}
         then MEDIUM
         else LOW)
    \<and> (\<forall>other. toLowerCase other = toLowerCase (trim (inputValue s)) \<longrightarrow>
          determinePriority other = priority (hd (tasks (addTask uuid nowIso s))))"
proof -
  have p: "priority (hd (tasks (addTask uuid nowIso s))) = determinePriority (trim (inputValue s))"
    by (simp add: addTask_tasks [OF assms])
  show ?thesis
  proof (intro conjI allI impI)
    show "tasks (addTask uuid nowIso s) = hd (tasks (addTask uuid nowIso s)) # tasks s"
      by (simp add: addTask_tasks [OF assms])
    show "priority (hd (tasks (addTask uuid nowIso s))) =
        (if set (tokens (trim (inputValue s))) \<inter> set (PRIORITY_KEYWORDS HIGH) \<noteq> {} then HIGH
         else if set (tokens (trim (inputValue s))) \<inter> set (PRIORITY_KEYWORDS MEDIUM) \<noteq> {}
         then MEDIUM
         else LOW)"
      unfolding p by (rule determinePriority_levels)
    fix other
    assume "toLowerCase other = toLowerCase (trim (inputValue s))"
    then show "determinePriority other = priority (hd (tasks (addTask uuid nowIso s)))"
      unfolding p by (rule determinePriority_case_insensitive)
  qed
qed

theorem addTask_priority_witness:
  "trim ''  URGENT exam tomorrow '' \<noteq> []
   \<and> priority (hd (tasks (addTask ''u1'' ''2026-11-02T10:00:00.000Z''
        \<lparr>currentUser = None, tasks = [], inputValue = ''  URGENT exam tomorrow '',
         error = None\<rparr>))) = HIGH"
proof -
  have h: "trim (inputValue \<lparr>currentUser = None, tasks = [],
      inputValue = ''  URGENT exam tomorrow '', error = None\<rparr>) \<noteq> []"
    by (simp add: trim_urgent_exam)
  show ?thesis
    using addTask_priority [OF h, of "''u1''" "''2026-11-02T10:00:00.000Z''"]
    by (simp add: trim_urgent_exam tokens_urgent_exam)
qed

section \<open>Validation at creation\<close>

text \<open>
  C4: for every input text that is empty after trimming, \<open>addTask\<close> reports the
  validation error (the message is set) and changes nothing else: the collection is the
  same, no record added and none modified.
\<close>

theorem addTask_empty_input:
  assumes "trim (inputValue s) = []"
  shows "addTask uuid nowIso s = s\<lparr>error := Some ''Please enter a valid task description.''\<rparr>
    \<and> tasks (addTask uuid nowIso s) = tasks s
    \<and> error (addTask uuid nowIso s) \<noteq> None"
  using assms by (simp add: addTask_def)

theorem addTask_empty_input_witness:
  "trim ''   '' = [] \<and> trim [] = []
   \<and> tasks (addTask ''u1'' ''2026-11-02T10:00:00.000Z''
        \<lparr>currentUser = None, tasks = [], inputValue = ''   '', error = None\<rparr>) = []
   \<and> error (addTask ''u1'' ''2026-11-02T10:00:00.000Z''
        \<lparr>currentUser = None, tasks = [], inputValue = ''   '', error = None\<rparr>) \<noteq> None
   \<and> tasks (addTask ''u1'' ''2026-11-02T10:00:00.000Z''
        \<lparr>currentUser = None, tasks = [], inputValue = [], error = None\<rparr>) = []
   \<and> error (addTask ''u1'' ''2026-11-02T10:00:00.000Z''
        \<lparr>currentUser = None, tasks = [], inputValue = [], error = None\<rparr>) \<noteq> None"
proof -
  have h1: "trim (inputValue \<lparr>currentUser = None, tasks = [], inputValue = ''   '',
      error = None\<rparr>) = []"
    by (simp add: trim_blanks)
  have h2: "trim (inputValue \<lparr>currentUser = None, tasks = [], inputValue = [],
      error = None\<rparr>) = []"
    by (simp add: trim_empty)
  show ?thesis
    using addTask_empty_input [OF h1, of "''u1''" "''2026-11-02T10:00:00.000Z''"]
      addTask_empty_input [OF h2, of "''u1''" "''2026-11-02T10:00:00.000Z''"]
    by (simp add: trim_blanks trim_empty)
qed

section \<open>Statistics\<close>

lemma completed_today_less:
  assumes "\<exists>t \<in> set ts. completed t \<and> \<not> isToday (createdAt t)"
  shows "length (filter (\<lambda>t. completed t \<and> isToday (createdAt t)) ts)
    < length (filter completed ts)"
proof -
  let ?cs = "filter completed ts"
  let ?old = "filter (\<lambda>t. \<not> isToday (createdAt t)) ?cs"
  have sum: "length (filter (\<lambda>t. isToday (createdAt t)) ?cs) + length ?old = length ?cs"
    by (rule sum_length_filter_compl)
  from assms have "?old \<noteq> []"
    by (auto simp: filter_empty_conv)
  then have pos: "0 < length ?old"
    by (rule iffD2 [OF length_greater_0_conv])
  have same: "filter (\<lambda>t. isToday (createdAt t)) ?cs
      = filter (\<lambda>t. completed t \<and> isToday (createdAt t)) ts"
    by (simp add: conj_commute)
  from sum pos show ?thesis
    unfolding same by linarith
qed

text \<open>
  C5: for every collection, the daily snapshot counts as pending all tasks that are not
  completed, whatever their creation date, as completed the completed tasks created today,
  and its total is the sum of the two; the monthly total is the size of the collection;
  and whenever some completed task was not created today, the two totals differ (the
  daily one is smaller).
\<close>

theorem stats_totals:
  "pending (dailyStats isToday ts) = length (filter (\<lambda>t. \<not> completed t) ts)
   \<and> completedCount (dailyStats isToday ts) =
       length (filter (\<lambda>t. completed t \<and> isToday (createdAt t)) ts)
   \<and> total (dailyStats isToday ts) =
       pending (dailyStats isToday ts) + completedCount (dailyStats isToday ts)
   \<and> total (monthlyStats ts) = length ts
   \<and> ((\<exists>t \<in> set ts. completed t \<and> \<not> isToday (createdAt t)) \<longrightarrow>
        total (dailyStats isToday ts) < total (monthlyStats ts)
        \<and> total (dailyStats isToday ts) \<noteq> total (monthlyStats ts))"
proof -
  have split: "length ts = length (filter (\<lambda>t. \<not> completed t) ts) + length (filter completed ts)"
    using sum_length_filter_compl [of completed ts] by simp
  have less: "total (dailyStats isToday ts) < total (monthlyStats ts)"
    if "\<exists>t \<in> set ts. completed t \<and> \<not> isToday (createdAt t)"
    using split completed_today_less [OF that]
    by (simp add: dailyStats_def monthlyStats_def Let_def)
  have counts: "pending (dailyStats isToday ts) = length (filter (\<lambda>t. \<not> completed t) ts)"
    "completedCount (dailyStats isToday ts) =
       length (filter (\<lambda>t. completed t \<and> isToday (createdAt t)) ts)"
    "total (dailyStats isToday ts) =
       pending (dailyStats isToday ts) + completedCount (dailyStats isToday ts)"
    "total (monthlyStats ts) = length ts"
    by (simp_all add: dailyStats_def monthlyStats_def Let_def)
  from less have "(\<exists>t \<in> set ts. completed t \<and> \<not> isToday (createdAt t)) \<longrightarrow>
        total (dailyStats isToday ts) < total (monthlyStats ts)
        \<and> total (dailyStats isToday ts) \<noteq> total (monthlyStats ts)"
    by fastforce
  with counts show ?thesis
    by blast
qed

theorem stats_totals_witness:
  "total (dailyStats (\<lambda>d. d = ''today'')
     [\<lparr>task_id = ''a'', task_text = ''A'', completed = True, createdAt = ''yesterday'',
       priority = LOW, tags = [], timeSpent = 0, isTimerRunning = False\<rparr>,
      \<lparr>task_id = ''b'', task_text = ''B'', completed = False, createdAt = ''yesterday'',
       priority = LOW, tags = [], timeSpent = 0, isTimerRunning = False\<rparr>]) = 1
   \<and> total (monthlyStats
     [\<lparr>task_id = ''a'', task_text = ''A'', completed = True, createdAt = ''yesterday'',
       priority = LOW, tags = [], timeSpent = 0, isTimerRunning = False\<rparr>,
      \<lparr>task_id = ''b'', task_text = ''B'', completed = False, createdAt = ''yesterday'',
       priority = LOW, tags = [], timeSpent = 0, isTimerRunning = False\<rparr>]) = 2"
  using stats_totals [of "\<lambda>d. d = ''today''"
     "[\<lparr>task_id = ''a'', task_text = ''A'', completed = True, createdAt = ''yesterday'',
       priority = LOW, tags = [], timeSpent = 0, isTimerRunning = False\<rparr>,
      \<lparr>task_id = ''b'', task_text = ''B'', completed = False, createdAt = ''yesterday'',
       priority = LOW, tags = [], timeSpent = 0, isTimerRunning = False\<rparr>]"]
  by simp

section \<open>Toggling completion, editing\<close>

text \<open>
  C8: \<open>toggleTask i\<close> applied twice leaves every task with another id as it was, and
  gives every task with id \<open>i\<close> its original \<open>completed\<close> flag back, with
  \<open>isTimerRunning\<close> false: that is the original value when the timer was not running, and
  false when it was.
\<close>

theorem toggleTask_twice:
  "toggleTask i (toggleTask i ts) =
     map (\<lambda>t. if task_id t = i then t\<lparr>isTimerRunning := False\<rparr> else t) ts"
  by (induction ts) (simp_all add: toggleTask_def)

lemma map_other_id:
  "i \<notin> task_id ` set ts \<Longrightarrow> map (\<lambda>t. if task_id t = i then f t else t) ts = ts"
  by (induction ts) auto

text \<open>
  C9: \<open>editTask i newText\<close> leaves the collection as it is when \<open>newText\<close> is empty after
  trimming or no task has id \<open>i\<close>. Otherwise the collection keeps its length and order,
  the text of every task with id \<open>i\<close> becomes the capitalized trimmed text, and all other
  fields of every task (id, creation time, completion, priority, tags, time spent, timer
  flag) stay as they were: priority and tags are not computed again.
\<close>

theorem editTask_frame:
  "length (editTask i newText ts) = length ts
   \<and> (trim newText = [] \<or> i \<notin> task_id ` set ts \<longrightarrow> editTask i newText ts = ts)
   \<and> (\<forall>k < length ts.
        task_text (editTask i newText ts ! k) =
          (if trim newText \<noteq> [] \<and> task_id (ts ! k) = i then capitalize (trim newText)
           else task_text (ts ! k))
        \<and> task_id (editTask i newText ts ! k) = task_id (ts ! k)
        \<and> createdAt (editTask i newText ts ! k) = createdAt (ts ! k)
        \<and> completed (editTask i newText ts ! k) = completed (ts ! k)
        \<and> priority (editTask i newText ts ! k) = priority (ts ! k)
        \<and> tags (editTask i newText ts ! k) = tags (ts ! k)
        \<and> timeSpent (editTask i newText ts ! k) = timeSpent (ts ! k)
        \<and> isTimerRunning (editTask i newText ts ! k) = isTimerRunning (ts ! k))"
  using map_other_id [of i ts] by (auto simp: editTask_def)

lemma trim_new_text: "trim '' new text '' = ''new text''"
  by (simp add: trim_def isSpace_def)

theorem editTask_frame_witness:
  "task_text (editTask ''a'' '' new text ''
     [\<lparr>task_id = ''a'', task_text = ''Old'', completed = False, createdAt = ''d'',
       priority = HIGH, tags = [''Work''], timeSpent = 7, isTimerRunning = True\<rparr>] ! 0)
     = ''New text''
   \<and> priority (editTask ''a'' '' new text ''
     [\<lparr>task_id = ''a'', task_text = ''Old'', completed = False, createdAt = ''d'',
       priority = HIGH, tags = [''Work''], timeSpent = 7, isTimerRunning = True\<rparr>] ! 0)
     = HIGH
   \<and> editTask ''b'' '' new text ''
     [\<lparr>task_id = ''a'', task_text = ''Old'', completed = False, createdAt = ''d'',
       priority = HIGH, tags = [''Work''], timeSpent = 7, isTimerRunning = True\<rparr>]
     = [\<lparr>task_id = ''a'', task_text = ''Old'', completed = False, createdAt = ''d'',
       priority = HIGH, tags = [''Work''], timeSpent = 7, isTimerRunning = True\<rparr>]"
  using editTask_frame [of "''a''" "'' new text ''"
     "[\<lparr>task_id = ''a'', task_text = ''Old'', completed = False, createdAt = ''d'',
       priority = HIGH, tags = [''Work''], timeSpent = 7, isTimerRunning = True\<rparr>]"]
    editTask_frame [of "''b''" "'' new text ''"
     "[\<lparr>task_id = ''a'', task_text = ''Old'', completed = False, createdAt = ''d'',
       priority = HIGH, tags = [''Work''], timeSpent = 7, isTimerRunning = True\<rparr>]"]
  by (simp add: trim_new_text toUpperChar_def lowerChars_def upperChars_def)

section \<open>Completed tasks and running timers\<close>

text \<open>
  Every operation keeps \<open>timerInv\<close>, except \<open>toggleTimer\<close> on a task that is completed.
\<close>

lemma step_timerInv:
  assumes "timerInv (tasks s)"
    and "\<forall>i. op = ToggleTimer i \<longrightarrow> (\<forall>t \<in> set (tasks s). task_id t = i \<longrightarrow> \<not> completed t)"
  shows "timerInv (tasks (step op s))"
  using assms
  by (cases op)
    (auto simp: timerInv_def list_all_iff addTask_def Let_def toggleTask_def toggleTimer_def
      deleteTask_def editTask_def clearCompleted_def tick_def)

lemma trim_read_book: "trim ''read book'' = ''read book''"
  by (simp add: trim_def isSpace_def)

text \<open>
  C1 says that, from a state where no task is both completed and running, no sequence of
  lifecycle operations and ticks leads to a task with \<open>isTimerRunning\<close> and \<open>completed\<close>
  both true. \<open>toggleTask\<close> stops the timer of a task it completes, but \<open>toggleTimer\<close> has
  no such test: from the empty collection, creating a task, completing it and toggling
  its timer gives a task that is completed and running, and the next tick adds to its
  time.
\<close>

theorem toggleTimer_on_completed_task:
  "timerInv (tasks \<lparr>currentUser = Some \<lparr>username = ''ann'', user_id = ''1''\<rparr>, tasks = [],
       inputValue = [], error = None\<rparr>)
   \<and> tasks (run [SetInput ''read book'', AddTask ''u1'' ''2026-11-02T10:00:00.000Z'',
                 ToggleTask ''u1'', ToggleTimer ''u1'', Tick]
       \<lparr>currentUser = Some \<lparr>username = ''ann'', user_id = ''1''\<rparr>, tasks = [],
        inputValue = [], error = None\<rparr>)
     = [\<lparr>task_id = ''u1'', task_text = ''Read book'', completed = True,
         createdAt = ''2026-11-02T10:00:00.000Z'', priority = determinePriority ''read book'',
         tags = determineTags ''read book'', timeSpent = 1, isTimerRunning = True\<rparr>]
   \<and> \<not> timerInv (tasks (run [SetInput ''read book'', AddTask ''u1'' ''2026-11-02T10:00:00.000Z'',
                 ToggleTask ''u1'', ToggleTimer ''u1'', Tick]
       \<lparr>currentUser = Some \<lparr>username = ''ann'', user_id = ''1''\<rparr>, tasks = [],
        inputValue = [], error = None\<rparr>))"
  by (simp add: timerInv_def addTask_def Let_def trim_read_book toggleTask_def toggleTimer_def
      tick_def toUpperChar_def lowerChars_def upperChars_def)

section \<open>Time spent\<close>

lemma descendant_simps:
  "descendant (SetInput v) s = (\<lambda>t. Some t)"
  "descendant (AddTask uuid nowIso) s = (\<lambda>t. Some t)"
  "descendant (ToggleTask i) s =
     (\<lambda>t. Some (if task_id t = i
           then t\<lparr>completed := \<not> completed t,
                  isTimerRunning := (if \<not> completed t then False else isTimerRunning t)\<rparr>
           else t))"
  "descendant (ToggleTimer i) s =
     (\<lambda>t. Some (if task_id t = i then t\<lparr>isTimerRunning := \<not> isTimerRunning t\<rparr> else t))"
  "descendant (DeleteTask i) s = (\<lambda>t. if task_id t = i then None else Some t)"
  "descendant (EditTask i newText) s =
     (\<lambda>t. Some (if trim newText \<noteq> [] \<and> task_id t = i
           then t\<lparr>task_text := capitalize (trim newText)\<rparr> else t))"
  "descendant ClearCompleted s = (\<lambda>t. if completed t then None else Some t)"
  "descendant Tick s =
     (\<lambda>t. Some (if currentUser s \<noteq> None \<and> isTimerRunning t
           then t\<lparr>timeSpent := timeSpent t + 1\<rparr> else t))"
  by (rule ext; simp add: descendant_def addTask_def Let_def toggleTask_def toggleTimer_def
      deleteTask_def editTask_def clearCompleted_def tick_def)+

lemma created_simps:
  "created (AddTask uuid nowIso) s =
     (if trim (inputValue s) = [] then []
      else [\<lparr>task_id = uuid, task_text = capitalize (trim (inputValue s)), completed = False,
             createdAt = nowIso, priority = determinePriority (trim (inputValue s)),
             tags = determineTags (trim (inputValue s)), timeSpent = 0,
             isTimerRunning = False\<rparr>])"
  "(\<forall>uuid nowIso. op \<noteq> AddTask uuid nowIso) \<Longrightarrow> created op s = []"
   apply (simp add: created_def addTask_def Let_def)
  apply (cases op)
         apply (simp_all add: created_def toggleTask_def toggleTimer_def
      deleteTask_def editTask_def clearCompleted_def tick_def)
  done

lemma map_filter_keep: "List.map_filter (\<lambda>t. Some t) ts = ts"
  by (induction ts) simp_all

lemma map_filter_Some: "List.map_filter (\<lambda>t. Some (f t)) ts = map f ts"
  by (induction ts) simp_all

lemma map_filter_drop:
  "List.map_filter (\<lambda>t. if P t then None else Some t) ts = filter (\<lambda>t. \<not> P t) ts"
  by (induction ts) simp_all

lemma in_map_filter: "x \<in> set xs \<Longrightarrow> f x = Some y \<Longrightarrow> y \<in> set (List.map_filter f xs)"
  by (induction xs) (auto split: option.splits)

text \<open>
  The collection after an operation is made of the tasks the operation creates, followed
  by the descendants of the tasks that were there, in their order.
\<close>

lemma step_tasks_decompose:
  "tasks (step op s) = created op s @ List.map_filter (descendant op s) (tasks s)"
proof (cases op)
  case (AddTask uuid nowIso)
  then show ?thesis
    by (simp add: descendant_simps created_simps map_filter_keep addTask_def Let_def)
next
  case Tick
  show ?thesis
  proof (cases "currentUser s \<noteq> None \<and> list_ex isTimerRunning (tasks s)")
    case True
    with Tick show ?thesis
      by (simp add: descendant_simps created_simps map_filter_Some tick_def)
  next
    case False
    have "map (\<lambda>t. if currentUser s \<noteq> None \<and> isTimerRunning t
                 then t\<lparr>timeSpent := timeSpent t + 1\<rparr> else t) (tasks s) = tasks s"
    proof (rule map_idI)
      fix t
      assume "t \<in> set (tasks s)"
      with False show "(if currentUser s \<noteq> None \<and> isTimerRunning t
          then t\<lparr>timeSpent := timeSpent t + 1\<rparr> else t) = t"
        by (auto simp: list_ex_iff)
    qed
    moreover from False have "step Tick s = s"
      by auto
    ultimately show ?thesis
      unfolding Tick by (simp add: descendant_simps created_simps map_filter_Some)
  qed
qed (simp_all add: descendant_simps created_simps map_filter_Some map_filter_keep map_filter_drop
    toggleTask_def toggleTimer_def deleteTask_def editTask_def clearCompleted_def)

lemma descendant_in_step:
  assumes "t \<in> set (tasks s)" and "descendant op s t = Some t'"
  shows "t' \<in> set (tasks (step op s))"
proof -
  from assms have "t' \<in> set (List.map_filter (descendant op s) (tasks s))"
    by (rule in_map_filter)
  then show ?thesis
    by (simp add: step_tasks_decompose)
qed

lemma descendant_timeSpent:
  assumes "descendant op s t = Some t'"
  shows "timeSpent t' =
     timeSpent t + (if op = Tick \<and> currentUser s \<noteq> None \<and> isTimerRunning t then 1 else 0)"
  using assms by (cases op) (auto simp: descendant_simps split: if_splits)

lemma descendants_run:
  "t \<in> set (tasks s) \<Longrightarrow> descendants ops s t = Some t' \<Longrightarrow>
     t' \<in> set (tasks (run ops s)) \<and> timeSpent t \<le> timeSpent t'"
proof (induction ops arbitrary: s t)
  case Nil
  then show ?case by simp
next
  case (Cons op ops)
  from Cons.prems(2) obtain m where m: "descendant op s t = Some m"
    and rest: "descendants ops (step op s) m = Some t'"
    by (auto split: option.splits)
  from Cons.prems(1) m have "m \<in> set (tasks (step op s))"
    by (rule descendant_in_step)
  with rest have "t' \<in> set (tasks (run ops (step op s))) \<and> timeSpent m \<le> timeSpent t'"
    by (intro Cons.IH)
  moreover from m have "timeSpent t \<le> timeSpent m"
    by (simp add: descendant_timeSpent)
  ultimately show ?case by simp
qed

text \<open>
  C7: for every task \<open>t\<close> of the collection, (1) an operation that keeps the task leaves
  its \<open>timeSpent\<close> as it is, except a tick while the task is running (and a user is
  logged in), which adds exactly 1; (2) after any sequence of operations and ticks that
  keeps the task, its descendant is in the collection and its \<open>timeSpent\<close> is not smaller
  than before.
\<close>

theorem timeSpent_monotone:
  assumes "t \<in> set (tasks s)"
  shows "(\<forall>op t'. descendant op s t = Some t' \<longrightarrow>
            t' \<in> set (tasks (step op s))
            \<and> timeSpent t' = timeSpent t +
                (if op = Tick \<and> currentUser s \<noteq> None \<and> isTimerRunning t then 1 else 0))
       \<and> (\<forall>ops t'. descendants ops s t = Some t' \<longrightarrow>
            t' \<in> set (tasks (run ops s)) \<and> timeSpent t \<le> timeSpent t')"
  using assms descendant_in_step descendant_timeSpent descendants_run by blast

theorem timeSpent_monotone_witness:
  "descendants [Tick, ToggleTimer ''a'', Tick, ToggleTask ''a'']
     \<lparr>currentUser = Some \<lparr>username = ''ann'', user_id = ''1''\<rparr>,
      tasks = [\<lparr>task_id = ''a'', task_text = ''A'', completed = False, createdAt = ''d'',
                priority = LOW, tags = [], timeSpent = 5, isTimerRunning = True\<rparr>],
      inputValue = [], error = None\<rparr>
     \<lparr>task_id = ''a'', task_text = ''A'', completed = False, createdAt = ''d'',
      priority = LOW, tags = [], timeSpent = 5, isTimerRunning = True\<rparr>
   = Some \<lparr>task_id = ''a'', task_text = ''A'', completed = True, createdAt = ''d'',
      priority = LOW, tags = [], timeSpent = 6, isTimerRunning = False\<rparr>
   \<and> \<lparr>task_id = ''a'', task_text = ''A'', completed = True, createdAt = ''d'',
      priority = LOW, tags = [], timeSpent = 6, isTimerRunning = False\<rparr>
     \<in> set (tasks (run [Tick, ToggleTimer ''a'', Tick, ToggleTask ''a'']
        \<lparr>currentUser = Some \<lparr>username = ''ann'', user_id = ''1''\<rparr>,
         tasks = [\<lparr>task_id = ''a'', task_text = ''A'', completed = False, createdAt = ''d'',
                   priority = LOW, tags = [], timeSpent = 5, isTimerRunning = True\<rparr>],
         inputValue = [], error = None\<rparr>))"
proof -
  let ?t = "\<lparr>task_id = ''a'', task_text = ''A'', completed = False, createdAt = ''d'',
      priority = LOW, tags = [], timeSpent = 5, isTimerRunning = True\<rparr>"
  let ?s = "\<lparr>currentUser = Some \<lparr>username = ''ann'', user_id = ''1''\<rparr>, tasks = [?t],
      inputValue = [], error = None\<rparr>"
  let ?ops = "[Tick, ToggleTimer ''a'', Tick, ToggleTask ''a'']"
  have h: "?t \<in> set (tasks ?s)"
    by simp
  have d: "descendants ?ops ?s ?t =
      Some \<lparr>task_id = ''a'', task_text = ''A'', completed = True, createdAt = ''d'',
        priority = LOW, tags = [], timeSpent = 6, isTimerRunning = False\<rparr>"
    by (simp add: descendant_simps tick_def toggleTimer_def toggleTask_def)
  from timeSpent_monotone [OF h] d show ?thesis
    by blast
qed

section \<open>Retention at load\<close>

lemma userStorageKey_nonempty: "userStorageKey (Some u) \<noteq> []"
  by (simp add: userStorageKey_def STORAGE_KEY_def)

lemma loadTasks_logged_in:
  assumes "localStorage (userStorageKey (Some u)) = Some parsed"
  shows "loadTasks dateTime now (Some u) localStorage =
     map cleanedTask
       (filter (\<lambda>t. isWithinLast30Days dateTime now (getProp t ''createdAt'')) parsed)"
  using assms by (simp add: loadTasks_def userStorageKey_nonempty)

lemma isWithinLast30Days_age:
  assumes "dateTime str = Some (now - age)"
  shows "isWithinLast30Days dateTime now (JStr str) \<longleftrightarrow> age \<le> 30 * msPerDay"
  using assms by (simp add: isWithinLast30Days_def)

lemma cleanedTask_props:
  "getProp (cleanedTask t) ''timeSpent'' =
     (if truthy (getProp t ''timeSpent'') then getProp t ''timeSpent'' else JNum 0)"
  "getProp (cleanedTask t) ''isTimerRunning'' = JBool (truthy (getProp t ''isTimerRunning''))"
  "key \<noteq> ''timeSpent'' \<Longrightarrow> key \<noteq> ''isTimerRunning'' \<Longrightarrow>
     getProp (cleanedTask t) key = getProp t key"
  by (simp_all add: cleanedTask_def getProp_def update_conv' jsOr_def)

lemma sample_key: "userStorageKey (Some sampleUser) = ''smart_task_pro_data_ann''"
  by (simp add: userStorageKey_def STORAGE_KEY_def sampleUser_def)

text \<open>
  C6: at session load, with a user logged in and records stored for them, the collection
  is made of exactly the stored records whose creation time stamp is within the last 30
  days (each with its two fields normalized), in their order. For a stored record created
  \<open>age\<close> milliseconds before now, the record is retained if and only if \<open>age\<close> is at most
  30 days: exactly 30 days old is retained, 31 days old is dropped, 29 days old is
  retained.
\<close>

theorem retention_inclusive:
  assumes "localStorage (userStorageKey (Some u)) = Some parsed"
  shows "loadTasks dateTime now (Some u) localStorage =
       map cleanedTask
         (filter (\<lambda>t. isWithinLast30Days dateTime now (getProp t ''createdAt'')) parsed)
   \<and> (\<forall>t \<in> set parsed. \<forall>str age.
         getProp t ''createdAt'' = JStr str \<and> dateTime str = Some (now - age) \<longrightarrow>
           (isWithinLast30Days dateTime now (getProp t ''createdAt'') \<longleftrightarrow> age \<le> 30 * msPerDay)
           \<and> (cleanedTask t \<in> set (loadTasks dateTime now (Some u) localStorage)
                \<longleftrightarrow> age \<le> 30 * msPerDay))"
proof (intro conjI ballI allI impI)
  show l: "loadTasks dateTime now (Some u) localStorage =
       map cleanedTask
         (filter (\<lambda>t. isWithinLast30Days dateTime now (getProp t ''createdAt'')) parsed)"
    using assms by (rule loadTasks_logged_in)
  fix t str age
  assume t: "t \<in> set parsed"
    and c: "getProp t ''createdAt'' = JStr str \<and> dateTime str = Some (now - age)"
  then show w: "isWithinLast30Days dateTime now (getProp t ''createdAt'') \<longleftrightarrow> age \<le> 30 * msPerDay"
    by (simp add: isWithinLast30Days_age)
  have created: "getProp (cleanedTask r) ''createdAt'' = getProp r ''createdAt''" for r
    by (simp add: cleanedTask_props)
  show "cleanedTask t \<in> set (loadTasks dateTime now (Some u) localStorage)
      \<longleftrightarrow> age \<le> 30 * msPerDay"
  proof
    assume "cleanedTask t \<in> set (loadTasks dateTime now (Some u) localStorage)"
    then obtain r where "cleanedTask r = cleanedTask t"
      and r: "isWithinLast30Days dateTime now (getProp r ''createdAt'')"
      unfolding l by auto
    then have "getProp r ''createdAt'' = getProp t ''createdAt''"
      using created [of r] created [of t] by simp
    with r w show "age \<le> 30 * msPerDay" by simp
  next
    assume "age \<le> 30 * msPerDay"
    with w t show "cleanedTask t \<in> set (loadTasks dateTime now (Some u) localStorage)"
      unfolding l by auto
  qed
qed

theorem retention_inclusive_witness:
  "sampleDateTime ''2026-10-02T10:00:00.000Z'' = Some (sampleNow - 31 * msPerDay)
   \<and> sampleDateTime ''2026-10-03T10:00:00.000Z'' = Some (sampleNow - 30 * msPerDay)
   \<and> sampleDateTime ''2026-10-04T10:00:00.000Z'' = Some (sampleNow - 29 * msPerDay)
   \<and> loadTasks sampleDateTime sampleNow (Some sampleUser)
     (sampleStorage
        [[(''id'', JStr ''a''), (''createdAt'', JStr ''2026-10-02T10:00:00.000Z'')],
         [(''id'', JStr ''b''), (''createdAt'', JStr ''2026-10-03T10:00:00.000Z'')],
         [(''id'', JStr ''c''), (''createdAt'', JStr ''2026-10-04T10:00:00.000Z'')]])
   = map cleanedTask
        [[(''id'', JStr ''b''), (''createdAt'', JStr ''2026-10-03T10:00:00.000Z'')],
         [(''id'', JStr ''c''), (''createdAt'', JStr ''2026-10-04T10:00:00.000Z'')]]"
proof -
  let ?recs = "[[(''id'', JStr ''a''), (''createdAt'', JStr ''2026-10-02T10:00:00.000Z'')],
         [(''id'', JStr ''b''), (''createdAt'', JStr ''2026-10-03T10:00:00.000Z'')],
         [(''id'', JStr ''c''), (''createdAt'', JStr ''2026-10-04T10:00:00.000Z'')]]"
  have h: "sampleStorage ?recs (userStorageKey (Some sampleUser)) = Some ?recs"
    by (simp add: sample_key sampleStorage_def)
  have a: "sampleDateTime ''2026-10-02T10:00:00.000Z'' = Some (sampleNow - 31 * msPerDay)"
    and b: "sampleDateTime ''2026-10-03T10:00:00.000Z'' = Some (sampleNow - 30 * msPerDay)"
    and c: "sampleDateTime ''2026-10-04T10:00:00.000Z'' = Some (sampleNow - 29 * msPerDay)"
    by (simp_all add: sampleDateTime_def sampleNow_def msPerDay_def)
  have m: "0 < msPerDay" by (simp add: msPerDay_def)
  from retention_inclusive [where localStorage = "sampleStorage ?recs" and u = sampleUser
      and parsed = ?recs and dateTime = sampleDateTime and now = sampleNow, OF h] a b c m
  show ?thesis
    by (simp add: getProp_def isWithinLast30Days_def)
qed

section \<open>Normalization at load\<close>

text \<open>
  C10, as the claim states it, fails: ``every in-memory task has a numeric timeSpent ...
  even when the persisted blob omits or corrupts those fields''. A stored record that
  passes the retention filter and whose \<open>timeSpent\<close> is the string \<open>abc\<close> enters the
  collection with that string: \<open>t.timeSpent || 0\<close> keeps every truthy value.
\<close>

theorem loadTasks_truthy_timeSpent_kept:
  "loadTasks sampleDateTime sampleNow (Some sampleUser)
     (sampleStorage
        [[(''id'', JStr ''c''), (''createdAt'', JStr ''2026-10-04T10:00:00.000Z''),
          (''timeSpent'', JStr ''abc''), (''isTimerRunning'', JBool False)]])
   = [[(''id'', JStr ''c''), (''createdAt'', JStr ''2026-10-04T10:00:00.000Z''),
       (''timeSpent'', JStr ''abc''), (''isTimerRunning'', JBool False)]]
   \<and> \<not> isNumber (getProp (hd (loadTasks sampleDateTime sampleNow (Some sampleUser)
     (sampleStorage
        [[(''id'', JStr ''c''), (''createdAt'', JStr ''2026-10-04T10:00:00.000Z''),
          (''timeSpent'', JStr ''abc''), (''isTimerRunning'', JBool False)]]))) ''timeSpent'')"
  by (simp add: loadTasks_def sample_key sampleStorage_def sampleDateTime_def sampleNow_def
      msPerDay_def isWithinLast30Days_def getProp_def cleanedTask_def jsOr_def)

text \<open>
  C10, amended: on session load, every stored record that passes the retention filter
  enters the collection with its fields normalized as follows. A missing or falsy
  \<open>timeSpent\<close> becomes 0 and a truthy one is kept as it is, so \<open>timeSpent\<close> is a number
  whenever the stored value was a number or was missing or falsy; \<open>isTimerRunning\<close>
  becomes the boolean \<open>!!isTimerRunning\<close>, whatever was stored; every other field is
  kept.
\<close>

theorem loadTasks_normalizes:
  assumes "localStorage (userStorageKey (Some u)) = Some parsed"
  shows "\<exists>kept. kept = filter (\<lambda>t. isWithinLast30Days dateTime now (getProp t ''createdAt'')) parsed
    \<and> length (loadTasks dateTime now (Some u) localStorage) = length kept
    \<and> (\<forall>k < length kept.
         getProp (loadTasks dateTime now (Some u) localStorage ! k) ''timeSpent'' =
           (if truthy (getProp (kept ! k) ''timeSpent'') then getProp (kept ! k) ''timeSpent''
            else JNum 0)
         \<and> getProp (loadTasks dateTime now (Some u) localStorage ! k) ''isTimerRunning'' =
             JBool (truthy (getProp (kept ! k) ''isTimerRunning''))
         \<and> isBoolean (getProp (loadTasks dateTime now (Some u) localStorage ! k) ''isTimerRunning'')
         \<and> (isNumber (getProp (kept ! k) ''timeSpent'') \<or> \<not> truthy (getProp (kept ! k) ''timeSpent'')
              \<longrightarrow> isNumber (getProp (loadTasks dateTime now (Some u) localStorage ! k) ''timeSpent''))
         \<and> (\<forall>key. key \<noteq> ''timeSpent'' \<and> key \<noteq> ''isTimerRunning'' \<longrightarrow>
               getProp (loadTasks dateTime now (Some u) localStorage ! k) key =
                 getProp (kept ! k) key))"
proof -
  have l: "loadTasks dateTime now (Some u) localStorage =
     map cleanedTask
       (filter (\<lambda>t. isWithinLast30Days dateTime now (getProp t ''createdAt'')) parsed)"
    using assms by (rule loadTasks_logged_in)
  show ?thesis
    unfolding l by (auto simp: cleanedTask_props)
qed

theorem loadTasks_normalizes_witness:
  "getProp (loadTasks sampleDateTime sampleNow (Some sampleUser)
     (sampleStorage
        [[(''id'', JStr ''c''), (''createdAt'', JStr ''2026-10-04T10:00:00.000Z''),
          (''isTimerRunning'', JNum 1)]]) ! 0) ''timeSpent'' = JNum 0
   \<and> getProp (loadTasks sampleDateTime sampleNow (Some sampleUser)
     (sampleStorage
        [[(''id'', JStr ''c''), (''createdAt'', JStr ''2026-10-04T10:00:00.000Z''),
          (''isTimerRunning'', JNum 1)]]) ! 0) ''isTimerRunning'' = JBool True"
proof -
  let ?recs = "[[(''id'', JStr ''c''), (''createdAt'', JStr ''2026-10-04T10:00:00.000Z''),
          (''isTimerRunning'', JNum 1)]]"
  have h: "sampleStorage ?recs (userStorageKey (Some sampleUser)) = Some ?recs"
    by (simp add: sample_key sampleStorage_def)
  from loadTasks_normalizes [where localStorage = "sampleStorage ?recs" and u = sampleUser
      and parsed = ?recs and dateTime = sampleDateTime and now = sampleNow, OF h]
  show ?thesis
    by (simp add: getProp_def isWithinLast30Days_def sampleDateTime_def sampleNow_def
        msPerDay_def)
qed

end
